theory Spec2Isabelle
  imports Main
begin

section \<open>krest: a password-gated, read-only view of configuration documents\<close>

text \<open>
  The module \<^verbatim>\<open>examples/krest.py\<close> subclasses the Kule REST server. Its handlers
  read a MongoDB database in which every collection is an environment and every
  document describes one application. The embedding below follows the module function
  by function. Storage queries are recorded in a trace, Python exceptions are values
  of a sum type, and the dictionaries that \<^verbatim>\<open>get_detail\<close> copies and mutates live
  in an explicit object store, so that aliasing is visible.
\<close>

subsection \<open>Values, documents, exceptions\<close>

text \<open>
  JSON-compatible values as Python holds them. \<open>JOid\<close> is the identifier that the
  store assigns to a document. A document is a Python \<^verbatim>\<open>dict\<close>: a finite map from
  keys to values.
\<close>

datatype json =
    JNull
  | JBool bool
  | JInt int
  | JStr string
  | JOid string
  | JArr "json list"
  | JObj "string \<Rightarrow> json option"

type_synonym doc = "string \<rightharpoonup> json"

text \<open>
  The exceptions that can leave a handler: \<^verbatim>\<open>bottle.abort(code, text)\<close> raises
  \<open>HTTPError code text\<close>, a missing dictionary key raises \<open>KeyError\<close>, and a call
  with the wrong number of arguments raises \<open>TypeError\<close>.
\<close>

datatype exn = HTTPError nat string | KeyError string | TypeError

subsection \<open>The world a handler runs in\<close>

text \<open>
  \<open>colls\<close> is the database \<^verbatim>\<open>config\<close>: for each collection name, its documents in
  the order the store returns them (a collection that was never written is empty).
  \<open>trace\<close> lists the queries issued so far. \<open>heap\<close> holds the dictionary objects
  created while a request runs, \<open>next_ref\<close> is the first unused reference.
\<close>

datatype query = Find string | Find_one string string

type_synonym ref = nat

record world =
  colls :: "string \<Rightarrow> doc list"
  trace :: "query list"
  heap :: "ref \<Rightarrow> doc"
  next_ref :: ref

type_synonym result = "(exn + json) \<times> world"

text \<open>The request global of bottle: only its query parameters are read.\<close>

record request =
  GET :: "string \<rightharpoonup> string"

text \<open>The server object: \<^verbatim>\<open>self.collections\<close> is the list of permitted environments.\<close>

record krest =
  collections :: "string list"

definition Krest :: krest where
  "Krest = \<lparr>collections = [''dev'', ''test'', ''prod'']\<rparr>"

subsection \<open>Collaborators outside the module\<close>

text \<open>
  Modelled from the spec: \<^verbatim>\<open>jsonify\<close> of \<^verbatim>\<open>kule.helpers\<close> is not part of the module.
  It renders its argument as the JSON response body; the body is modelled as the JSON
  value that the rendered text denotes. The rendered text itself, the order in which
  the keys of an object are written and the rendering of a store identifier are not
  modelled, so nothing here speaks about the bytes of a body.
\<close>

definition jsonify :: "json \<Rightarrow> json" where
  "jsonify obj = obj"

text \<open>
  Modelled from the spec: the document store is an external collaborator.
  \<^verbatim>\<open>collection.find({})\<close> yields all documents of the collection in storage order,
  \<^verbatim>\<open>collection.find_one({"app": name})\<close> yields the first document whose \<^verbatim>\<open>app\<close>
  field equals \<^verbatim>\<open>name\<close>, or \<^verbatim>\<open>None\<close>. Each is one query. A document that
  \<^verbatim>\<open>find_one\<close> returns is a new dictionary object.
\<close>

definition alloc :: "doc \<Rightarrow> world \<Rightarrow> ref \<times> world" where
  "alloc d w = (next_ref w, w\<lparr>heap := (heap w)(next_ref w := d), next_ref := Suc (next_ref w)\<rparr>)"

definition collection_find :: "string \<Rightarrow> world \<Rightarrow> doc list \<times> world" where
  "collection_find c w = (colls w c, w\<lparr>trace := trace w @ [Find c]\<rparr>)"

definition matches_app :: "string \<Rightarrow> doc \<Rightarrow> bool" where
  "matches_app name d = (d ''app'' = Some (JStr name))"

definition collection_find_one :: "string \<Rightarrow> string \<Rightarrow> world \<Rightarrow> ref option \<times> world" where
  "collection_find_one c name w =
     (let w1 = w\<lparr>trace := trace w @ [Find_one c name]\<rparr>
      in case List.find (matches_app name) (colls w c) of
           None \<Rightarrow> (None, w1)
         | Some d \<Rightarrow> (let (r, w2) = alloc d w1 in (Some r, w2)))"

subsection \<open>Dictionary operations on the object store\<close>

definition dict_copy :: "ref \<Rightarrow> world \<Rightarrow> ref \<times> world" where
  "dict_copy r w = alloc (heap w r) w"

definition dict_pop :: "ref \<Rightarrow> string \<Rightarrow> world \<Rightarrow> world" where
  "dict_pop r k w = w\<lparr>heap := (heap w)(r := (heap w r)(k := None))\<rparr>"

definition dict_update :: "ref \<Rightarrow> string \<Rightarrow> json \<Rightarrow> world \<Rightarrow> world" where
  "dict_update r k v w = w\<lparr>heap := (heap w)(r := (heap w r)(k \<mapsto> v))\<rparr>"

subsection \<open>Error bodies\<close>

text \<open>\<^verbatim>\<open>error or 'Nothing here'\<close>: an absent or empty message gives the default text.\<close>

definition error404 :: "string option \<Rightarrow> json" where
  "error404 err =
     jsonify (JObj [''error'' \<mapsto> JInt 404,
                    ''text'' \<mapsto> JStr (case err of
                                          None \<Rightarrow> ''Nothing here''
                                        | Some t \<Rightarrow> if t = [] then ''Nothing here'' else t)])"

definition error401 :: "string option \<Rightarrow> json" where
  "error401 err = jsonify (JObj [''error'' \<mapsto> JInt 401, ''text'' \<mapsto> JStr ''Unauthorized''])"

subsection \<open>The authorisation wrapper\<close>

text \<open>
  \<^verbatim>\<open>check_auth(fxn)\<close> returns \<^verbatim>\<open>newf\<close>, which accepts any arguments, compares the
  query parameter \<^verbatim>\<open>key\<close> with the master password and only then calls \<^verbatim>\<open>fxn\<close>.
\<close>

definition check_auth ::
  "string \<Rightarrow> (string list \<Rightarrow> world \<Rightarrow> result) \<Rightarrow> string list \<Rightarrow> request \<Rightarrow> world \<Rightarrow> result" where
  "check_auth MASTER_PASS fxn args req w =
     (if GET req ''key'' = Some MASTER_PASS
      then fxn args w
      else (Inr (error401 None), w))"

subsection \<open>The read-only server\<close>

text \<open>
  \<^verbatim>\<open>patch_detail(self, collection, pk)\<close> aborts. The names \<^verbatim>\<open>put_detail\<close>,
  \<^verbatim>\<open>delete_detail\<close> and \<^verbatim>\<open>post_list\<close> are bound to the same function, so each
  of them takes the two arguments \<^verbatim>\<open>collection\<close> and \<^verbatim>\<open>pk\<close>.
\<close>

fun patch_detail :: "krest \<Rightarrow> string list \<Rightarrow> world \<Rightarrow> result" where
  "patch_detail self [collection, pk] w = (Inl (HTTPError 500 ''not implemented''), w)"
| "patch_detail self args w = (Inl TypeError, w)"

definition put_detail :: "krest \<Rightarrow> string list \<Rightarrow> world \<Rightarrow> result" where
  "put_detail = patch_detail"

definition delete_detail :: "krest \<Rightarrow> string list \<Rightarrow> world \<Rightarrow> result" where
  "delete_detail = patch_detail"

definition post_list :: "krest \<Rightarrow> string list \<Rightarrow> world \<Rightarrow> result" where
  "post_list = patch_detail"

subsection \<open>The configuration reader\<close>

text \<open>
  \<^verbatim>\<open>get_collection\<close> calls \<^verbatim>\<open>error404\<close> for an environment that is not permitted,
  drops the value that call returns, and goes on to return
  \<^verbatim>\<open>self.connection[collection]\<close>. Taking the handle issues no query; the handle is
  modelled as the collection's name.
\<close>

definition get_collection :: "krest \<Rightarrow> string \<Rightarrow> string" where
  "get_collection self collection =
     (let dropped = (if collections self \<noteq> [] \<and> collection \<notin> set (collections self)
                     then Some (error404 (Some ''invalid environment''))
                     else None)
      in collection)"

text \<open>
  \<^verbatim>\<open>x.get('app', x['_id'])\<close>: Python evaluates the default \<^verbatim>\<open>x['_id']\<close> before it
  calls \<^verbatim>\<open>get\<close>, so the lookup of \<^verbatim>\<open>_id\<close> happens for every document.
\<close>

definition app_or_id :: "doc \<Rightarrow> exn + json" where
  "app_or_id x =
     (case x ''_id'' of
        None \<Rightarrow> Inl (KeyError ''_id'')
      | Some i \<Rightarrow> Inr (case x ''app'' of Some a \<Rightarrow> a | None \<Rightarrow> i))"

text \<open>The list comprehension: the first exception ends it.\<close>

fun comprehension :: "doc list \<Rightarrow> exn + json list" where
  "comprehension [] = Inr []"
| "comprehension (x # xs) =
     (case app_or_id x of
        Inl e \<Rightarrow> Inl e
      | Inr v \<Rightarrow> (case comprehension xs of Inl e \<Rightarrow> Inl e | Inr vs \<Rightarrow> Inr (v # vs)))"

fun get_list_fxn :: "krest \<Rightarrow> string list \<Rightarrow> world \<Rightarrow> result" where
  "get_list_fxn self [collection] w =
     (let env_name = collection;
          coll = get_collection self env_name;
          (cursor, w1) = collection_find coll w
      in case comprehension cursor of
           Inl e \<Rightarrow> (Inl e, w1)
         | Inr names \<Rightarrow> (Inr (jsonify (JArr names)), w1))"
| "get_list_fxn self args w = (Inl TypeError, w)"

definition get_list :: "string \<Rightarrow> krest \<Rightarrow> string list \<Rightarrow> request \<Rightarrow> world \<Rightarrow> result" where
  "get_list MASTER_PASS self = check_auth MASTER_PASS (get_list_fxn self)"

text \<open>
  \<^verbatim>\<open>find_one(...) or {}\<close>: a result that is \<^verbatim>\<open>None\<close> or an empty dictionary is
  replaced by a new empty dictionary.
\<close>

definition or_empty_dict :: "ref option \<Rightarrow> world \<Rightarrow> ref \<times> world" where
  "or_empty_dict found w =
     (case found of
        None \<Rightarrow> alloc Map.empty w
      | Some r \<Rightarrow> if heap w r = Map.empty then alloc Map.empty w else (r, w))"

fun get_detail_fxn :: "krest \<Rightarrow> string list \<Rightarrow> world \<Rightarrow> result" where
  "get_detail_fxn self [collection, pk] w =
     (let app_name = pk;
          env_name = collection;
          coll = get_collection self env_name;
          (found, w1) = collection_find_one coll app_name w;
          (fetched, w2) = or_empty_dict found w1;
          (data, w3) = dict_copy fetched w2;
          w4 = dict_pop data ''_id'' w3;
          w5 = dict_update data ''env'' (JStr env_name) w4
      in if heap w5 data \<noteq> Map.empty
         then (Inr (jsonify (JObj (heap w5 data))), w5)
         else (Inr (jsonify (JObj Map.empty)), w5))"
| "get_detail_fxn self args w = (Inl TypeError, w)"

definition get_detail :: "string \<Rightarrow> krest \<Rightarrow> string list \<Rightarrow> request \<Rightarrow> world \<Rightarrow> result" where
  "get_detail MASTER_PASS self = check_auth MASTER_PASS (get_detail_fxn self)"

subsection \<open>Routing\<close>

text \<open>
  Modelled from the spec: the route table of the Kule base class is not part of the
  module. The list route \<^verbatim>\<open>/{env}\<close> carries one path argument and the detail route
  \<^verbatim>\<open>/{env}/{app}\<close> two, and a request is served by the view named after its method
  and its route, called with the path arguments. The views that the module does not
  define come from the base class and are a parameter here.
\<close>

datatype http_method = M_GET | M_POST | M_PUT | M_PATCH | M_DELETE

datatype route = List_route string | Detail_route string string

definition serve ::
  "string \<Rightarrow> krest \<Rightarrow> (http_method \<Rightarrow> route \<Rightarrow> request \<Rightarrow> world \<Rightarrow> result) \<Rightarrow>
   http_method \<Rightarrow> route \<Rightarrow> request \<Rightarrow> world \<Rightarrow> result" where
  "serve MASTER_PASS self inherited m rt req w =
     (case rt of
        List_route e \<Rightarrow>
          (case m of
             M_GET \<Rightarrow> get_list MASTER_PASS self [e] req w
           | M_POST \<Rightarrow> post_list self [e] w
           | _ \<Rightarrow> inherited m rt req w)
      | Detail_route e a \<Rightarrow>
          (case m of
             M_GET \<Rightarrow> get_detail MASTER_PASS self [e, a] req w
           | M_PUT \<Rightarrow> put_detail self [e, a] w
           | M_PATCH \<Rightarrow> patch_detail self [e, a] w
           | M_DELETE \<Rightarrow> delete_detail self [e, a] w
           | M_POST \<Rightarrow> inherited m rt req w))"

subsection \<open>The listing as the specification words it\<close>

text \<open>
  Each record is projected to its \<^verbatim>\<open>app\<close> field; a record without one is
  represented by its internal identifier.
\<close>

definition app_listing :: "doc list \<Rightarrow> json list" where
  "app_listing ds = map (\<lambda>x. case x ''app'' of Some a \<Rightarrow> a | None \<Rightarrow> the (x ''_id'')) ds"

subsection \<open>Sample worlds and requests\<close>

definition empty_world :: world where
  "empty_world = \<lparr>colls = (\<lambda>c. []), trace = [], heap = (\<lambda>r. Map.empty), next_ref = 0\<rparr>"

definition sample_doc :: doc where
  "sample_doc = [''_id'' \<mapsto> JOid ''5f1'', ''app'' \<mapsto> JStr ''a'', ''x'' \<mapsto> JInt 1, ''y'' \<mapsto> JInt 2]"

definition nameless_doc :: doc where
  "nameless_doc = [''_id'' \<mapsto> JOid ''5f2'', ''z'' \<mapsto> JInt 3]"

definition bare_doc :: doc where
  "bare_doc = [''z'' \<mapsto> JInt 3]"

definition sample_world :: world where
  "sample_world =
     empty_world\<lparr>colls := (\<lambda>c. if c = ''dev'' then [sample_doc, nameless_doc] else [])\<rparr>"

definition staging_world :: world where
  "staging_world = empty_world\<lparr>colls := (\<lambda>c. if c = ''staging'' then [sample_doc] else [])\<rparr>"

definition bare_world :: world where
  "bare_world = empty_world\<lparr>colls := (\<lambda>c. if c = ''dev'' then [bare_doc] else [])\<rparr>"

definition stale_env_doc :: doc where
  "stale_env_doc = sample_doc(''env'' \<mapsto> JStr ''old'')"

definition stale_env_world :: world where
  "stale_env_world =
     empty_world\<lparr>colls := (\<lambda>c. if c = ''prod'' then [stale_env_doc] else [])\<rparr>"

definition with_key :: "string \<Rightarrow> request" where
  "with_key k = \<lparr>GET = [''key'' \<mapsto> k]\<rparr>"

definition no_key :: request where
  "no_key = \<lparr>GET = Map.empty\<rparr>"

text \<open>Response bodies named in the claims.\<close>

definition unauthorized_body :: json where
  "unauthorized_body = JObj [''error'' \<mapsto> JInt 401, ''text'' \<mapsto> JStr ''Unauthorized'']"

definition env_only_view :: "string \<Rightarrow> json" where
  "env_only_view e = JObj [''env'' \<mapsto> JStr e]"

definition view_without_app :: "string \<Rightarrow> json" where
  "view_without_app e = JObj [''x'' \<mapsto> JInt 1, ''y'' \<mapsto> JInt 2, ''env'' \<mapsto> JStr e]"

definition view_with_app :: "string \<Rightarrow> string \<Rightarrow> json" where
  "view_with_app e a =
     JObj [''app'' \<mapsto> JStr a, ''x'' \<mapsto> JInt 1, ''y'' \<mapsto> JInt 2, ''env'' \<mapsto> JStr e]"

section \<open>Properties\<close>

lemmas handler_defs = get_list_def get_detail_def check_auth_def get_collection_def
  collection_find_def collection_find_one_def alloc_def dict_copy_def dict_pop_def
  dict_update_def or_empty_dict_def jsonify_def

lemmas sample_defs = sample_world_def staging_world_def bare_world_def empty_world_def
  sample_doc_def nameless_doc_def bare_doc_def with_key_def no_key_def matches_app_def

subsection \<open>The list comprehension\<close>

lemma comprehension_total:
  "\<forall>x \<in> set ds. x ''_id'' \<noteq> None \<Longrightarrow> comprehension ds = Inr (app_listing ds)"
  by (induction ds) (auto simp: app_or_id_def app_listing_def split: option.splits)

lemma comprehension_fails:
  "x \<in> set ds \<Longrightarrow> x ''_id'' = None \<Longrightarrow> comprehension ds = Inl (KeyError ''_id'')"
proof (induction ds)
  case Nil
  then show ?case by simp
next
  case (Cons d ds)
  show ?case
  proof (cases "d ''_id''")
    case None
    then show ?thesis by (simp add: app_or_id_def)
  next
    case (Some i)
    with Cons.prems have "x \<in> set ds" by auto
    from Cons.IH [OF this Cons.prems(2)] Some show ?thesis
      by (simp add: app_or_id_def)
  qed
qed

text \<open>
  The default of \<^verbatim>\<open>get\<close> is evaluated first: a document that has an \<^verbatim>\<open>app\<close>
  field and no identifier fails as well.
\<close>

lemma app_or_id_eager: "x ''_id'' = None \<Longrightarrow> app_or_id x = Inl (KeyError ''_id'')"
  by (simp add: app_or_id_def)

subsection \<open>The detail view of a record that was found\<close>

lemma find_matches: "List.find (matches_app a) ds = Some r \<Longrightarrow> r ''app'' = Some (JStr a)"
  by (auto simp: find_Some_iff matches_app_def)

lemma get_detail_found:
  assumes "GET req ''key'' = Some mp" and "List.find (matches_app a) (colls w e) = Some r"
  shows "fst (get_detail mp self [e, a] req w)
           = Inr (JObj ((r(''_id'' := None))(''env'' \<mapsto> JStr e)))"
proof -
  have "r \<noteq> Map.empty" using find_matches [OF assms(2)] by auto
  then show ?thesis using assms
    by (simp add: handler_defs Let_def)
qed

lemma sample_found:
  "List.find (matches_app ''a'') (colls sample_world ''dev'') = Some sample_doc"
  by (simp add: sample_defs)

lemma with_key_ok: "GET (with_key k) ''key'' = Some k"
  by (simp add: with_key_def)

subsection \<open>The read requests leave the stored data alone\<close>

lemma get_list_fxn_keeps: "colls (snd (get_list_fxn self args w)) = colls w"
  by (cases "(self, args, w)" rule: get_list_fxn.cases)
     (auto simp: handler_defs Let_def split: sum.splits)

lemma get_detail_fxn_keeps: "colls (snd (get_detail_fxn self args w)) = colls w"
  by (cases "(self, args, w)" rule: get_detail_fxn.cases)
     (auto simp: handler_defs Let_def split: option.splits)

text \<open>Dictionaries that exist before a detail request are the same objects after it.\<close>

lemma get_detail_fxn_frame:
  "p < next_ref w \<Longrightarrow> heap (snd (get_detail_fxn self args w)) p = heap w p"
  by (cases "(self, args, w)" rule: get_detail_fxn.cases)
     (auto simp: handler_defs Let_def split: option.splits)

subsection \<open>The write views\<close>

lemma write_detail_views_abort:
  "m \<in> {M_PUT, M_PATCH, M_DELETE} \<Longrightarrow>
   serve mp self inherited m (Detail_route e a) req w = (Inl (HTTPError 500 ''not implemented''), w)"
  by (auto simp: serve_def put_detail_def delete_detail_def)

section \<open>The claims\<close>

text \<open>
  Claim C1. For an environment outside the permitted set, a list request and a detail
  request with the correct secret should both return the fixed 404 body and issue no
  storage query. The code does otherwise: \<open>get_collection\<close> drops the 404 body and
  hands out the collection, so for the unpermitted environment \<^verbatim>\<open>staging\<close> both
  requests query the store and return its data.
\<close>

theorem unpermitted_env_is_queried:
  "get_list mp Krest [''staging''] (with_key mp) staging_world
     = (Inr (JArr [JStr ''a'']), staging_world\<lparr>trace := [Find ''staging'']\<rparr>)
   \<and> fst (get_detail mp Krest [''staging'', ''a''] (with_key mp) staging_world)
     = Inr (view_with_app ''staging'' ''a'')
   \<and> trace (snd (get_detail mp Krest [''staging'', ''a''] (with_key mp) staging_world))
     = [Find_one ''staging'' ''a'']"
proof (intro conjI)
  show "get_list mp Krest [''staging''] (with_key mp) staging_world
     = (Inr (JArr [JStr ''a'']), staging_world\<lparr>trace := [Find ''staging'']\<rparr>)"
    by (simp add: handler_defs sample_defs app_or_id_def Let_def)
  have f: "List.find (matches_app ''a'') (colls staging_world ''staging'') = Some sample_doc"
    by (simp add: sample_defs)
  have "(sample_doc(''_id'' := None))(''env'' \<mapsto> JStr ''staging'')
      = [''app'' \<mapsto> JStr ''a'', ''x'' \<mapsto> JInt 1, ''y'' \<mapsto> JInt 2, ''env'' \<mapsto> JStr ''staging'']"
    by (auto simp: fun_eq_iff sample_doc_def)
  then show "fst (get_detail mp Krest [''staging'', ''a''] (with_key mp) staging_world)
     = Inr (view_with_app ''staging'' ''a'')"
    unfolding get_detail_found [OF with_key_ok f] by (simp add: view_with_app_def)
  show "trace (snd (get_detail mp Krest [''staging'', ''a''] (with_key mp) staging_world))
     = [Find_one ''staging'' ''a'']"
    by (simp add: handler_defs sample_defs Let_def)
qed

text \<open>
  Claim C2. For a permitted environment and an application with no record, the detail
  request should return exactly the empty object. The code sets \<^verbatim>\<open>env\<close> before it
  tests the dictionary for emptiness, so the branch that returns the empty object is
  never taken: the body is the object that carries only \<^verbatim>\<open>env\<close>.
\<close>

theorem missing_app_view_carries_env:
  "fst (get_detail mp Krest [''dev'', ''b''] (with_key mp) sample_world)
     = Inr (env_only_view ''dev'')
   \<and> fst (get_detail mp Krest [''dev'', ''b''] (with_key mp) sample_world)
     \<noteq> Inr (JObj Map.empty)"
  by (simp add: handler_defs sample_defs env_only_view_def Let_def)

text \<open>
  Claim C3, as amended. For every permitted environment \<open>e\<close>, if the record found for
  \<open>a\<close> in the partition of \<open>e\<close> is \<^verbatim>\<open>{app: a, x: 1, y: 2}\<close> plus an internal identifier,
  then the detail request with the correct secret returns exactly
  \<^verbatim>\<open>{app: a, x: 1, y: 2, env: e}\<close>: the internal identifier is absent from the output
  and the \<^verbatim>\<open>app\<close> field is kept.
\<close>

theorem detail_view_keeps_app:
  assumes "e \<in> set (collections Krest)" and "GET req ''key'' = Some mp"
    and "List.find (matches_app a) (colls w e)
           = Some [''_id'' \<mapsto> i, ''app'' \<mapsto> JStr a, ''x'' \<mapsto> JInt 1, ''y'' \<mapsto> JInt 2]"
  shows "\<exists>out. fst (get_detail mp Krest [e, a] req w) = Inr (JObj out)
           \<and> JObj out = view_with_app e a
           \<and> out ''_id'' = None
           \<and> out ''app'' = Some (JStr a)"
proof -
  have "([''_id'' \<mapsto> i, ''app'' \<mapsto> JStr a, ''x'' \<mapsto> JInt 1, ''y'' \<mapsto> JInt 2](''_id'' := None))
          (''env'' \<mapsto> JStr e)
      = [''app'' \<mapsto> JStr a, ''x'' \<mapsto> JInt 1, ''y'' \<mapsto> JInt 2, ''env'' \<mapsto> JStr e]"
    by (auto simp: fun_eq_iff)
  then show ?thesis
    unfolding get_detail_found [OF assms(2,3)] by (simp add: view_with_app_def)
qed

theorem detail_view_keeps_app_witness:
  "fst (get_detail ''s3cret'' Krest [''dev'', ''a''] (with_key ''s3cret'') sample_world)
     = Inr (view_with_app ''dev'' ''a'')"
proof -
  have h1: "''dev'' \<in> set (collections Krest)" by (simp add: Krest_def)
  have h2: "GET (with_key ''s3cret'') ''key'' = Some ''s3cret''" by (rule with_key_ok)
  have h3: "List.find (matches_app ''a'') (colls sample_world ''dev'')
      = Some [''_id'' \<mapsto> JOid ''5f1'', ''app'' \<mapsto> JStr ''a'', ''x'' \<mapsto> JInt 1, ''y'' \<mapsto> JInt 2]"
    by (simp add: sample_defs)
  from detail_view_keeps_app [OF h1 h2 h3] show ?thesis by auto
qed

text \<open>
  Claim C3 as stated fails: the record \<^verbatim>\<open>{_id, app: a, x: 1, y: 2}\<close> in \<^verbatim>\<open>dev\<close> is
  not rendered as \<^verbatim>\<open>{x: 1, y: 2, env: dev}\<close>.
\<close>

theorem detail_view_without_app_refuted:
  "fst (get_detail ''s3cret'' Krest [''dev'', ''a''] (with_key ''s3cret'') sample_world)
     \<noteq> Inr (view_without_app ''dev'')"
  unfolding get_detail_found [OF with_key_ok sample_found]
  by (auto simp: sample_doc_def view_without_app_def fun_eq_iff dest!: spec [of _ "''app''"])

text \<open>
  Claim C4. When the \<^verbatim>\<open>key\<close> parameter is absent or differs from the secret, both
  endpoints return the fixed 401 body, whatever function is wrapped is not called, and
  the world, with its trace of storage queries, is unchanged.
\<close>

theorem unauthorized_without_query:
  assumes "GET req ''key'' \<noteq> Some mp"
  shows "get_list mp self args req w = (Inr unauthorized_body, w)
       \<and> get_detail mp self args req w = (Inr unauthorized_body, w)
       \<and> (\<forall>fxn. check_auth mp fxn args req w = (Inr unauthorized_body, w))"
  using assms
  by (simp add: get_list_def get_detail_def check_auth_def error401_def jsonify_def
      unauthorized_body_def)

theorem unauthorized_without_query_witness:
  "get_list ''s3cret'' Krest [''dev''] no_key sample_world = (Inr unauthorized_body, sample_world)
   \<and> get_detail ''s3cret'' Krest [''dev'', ''a''] (with_key ''guess'') sample_world
       = (Inr unauthorized_body, sample_world)"
proof -
  have h1: "GET no_key ''key'' \<noteq> Some ''s3cret''" by (simp add: no_key_def)
  have h2: "GET (with_key ''guess'') ''key'' \<noteq> Some ''s3cret''" by (simp add: with_key_def)
  from unauthorized_without_query [OF h1, of Krest "[''dev'']" sample_world]
    unauthorized_without_query [OF h2, of Krest "[''dev'', ''a'']" sample_world]
  show ?thesis by simp
qed

text \<open>
  Claim C5. For every permitted environment and every request with the correct secret,
  the list request returns the records of the partition, in storage order, each
  projected to its \<^verbatim>\<open>app\<close> field or, when it has none, to its internal identifier.
  Every stored document carries the identifier that the store manages; the list
  request issues the one query that reads the partition.
\<close>

theorem get_list_is_app_listing:
  assumes "e \<in> set (collections Krest)" and "GET req ''key'' = Some mp"
    and "\<forall>x \<in> set (colls w e). x ''_id'' \<noteq> None"
  shows "get_list mp Krest [e] req w
           = (Inr (JArr (app_listing (colls w e))), w\<lparr>trace := trace w @ [Find e]\<rparr>)"
  using assms(2) comprehension_total [OF assms(3)]
  by (simp add: handler_defs Let_def)

theorem get_list_is_app_listing_witness:
  "fst (get_list ''s3cret'' Krest [''dev''] (with_key ''s3cret'') sample_world)
     = Inr (JArr [JStr ''a'', JOid ''5f2''])"
proof -
  have h1: "''dev'' \<in> set (collections Krest)" by (simp add: Krest_def)
  have h2: "GET (with_key ''s3cret'') ''key'' = Some ''s3cret''" by (rule with_key_ok)
  have h3: "\<forall>x \<in> set (colls sample_world ''dev''). x ''_id'' \<noteq> None"
    by (simp add: sample_defs)
  have "app_listing (colls sample_world ''dev'') = [JStr ''a'', JOid ''5f2'']"
    by (simp add: sample_defs app_listing_def)
  with get_list_is_app_listing [OF h1 h2 h3] show ?thesis by simp
qed

text \<open>
  Claim C6. Every PUT, POST, PATCH or DELETE request to the list route or the detail
  route should return the fixed failure \<^verbatim>\<open>not implemented\<close>. The name
  \<^verbatim>\<open>post_list\<close> is bound to \<^verbatim>\<open>patch_detail\<close>, which needs the two arguments
  \<^verbatim>\<open>collection\<close> and \<^verbatim>\<open>pk\<close>; the list route supplies one, so a POST to the list
  route ends in a \<^verbatim>\<open>TypeError\<close> and the abort is never reached.
\<close>

theorem post_to_list_route_type_error:
  "serve mp Krest inherited M_POST (List_route ''dev'') req w = (Inl TypeError, w)
   \<and> fst (serve mp Krest inherited M_POST (List_route ''dev'') req w)
       \<noteq> Inl (HTTPError 500 ''not implemented'')"
  by (simp add: serve_def post_list_def)

text \<open>
  Claim C7. For every stored record that a detail request finds and every environment
  name \<open>e\<close>, the output has the record's value at every key other than \<^verbatim>\<open>_id\<close> and
  \<^verbatim>\<open>env\<close> (and no value where the record has none), has no \<^verbatim>\<open>_id\<close>, and maps
  \<^verbatim>\<open>env\<close> to \<open>e\<close>, whatever the record held there.
\<close>

theorem detail_view_preserves_fields:
  assumes "GET req ''key'' = Some mp" and "List.find (matches_app a) (colls w e) = Some r"
  shows "\<exists>out. fst (get_detail mp Krest [e, a] req w) = Inr (JObj out)
          \<and> (\<forall>k. k \<noteq> ''_id'' \<and> k \<noteq> ''env'' \<longrightarrow> out k = r k)
          \<and> out ''_id'' = None
          \<and> out ''env'' = Some (JStr e)"
  using get_detail_found [OF assms] by simp

theorem detail_view_preserves_fields_witness:
  "\<exists>out. fst (get_detail ''s3cret'' Krest [''prod'', ''a''] (with_key ''s3cret'') stale_env_world)
            = Inr (JObj out)
         \<and> out ''x'' = Some (JInt 1)
         \<and> out ''app'' = Some (JStr ''a'')
         \<and> out ''z'' = None
         \<and> out ''_id'' = None
         \<and> out ''env'' = Some (JStr ''prod'')"
proof -
  have h1: "GET (with_key ''s3cret'') ''key'' = Some ''s3cret''" by (rule with_key_ok)
  have h2: "List.find (matches_app ''a'') (colls stale_env_world ''prod'') = Some stale_env_doc"
    by (simp add: stale_env_world_def stale_env_doc_def sample_defs)
  from detail_view_preserves_fields [OF h1 h2] obtain out where
    o: "fst (get_detail ''s3cret'' Krest [''prod'', ''a''] (with_key ''s3cret'') stale_env_world)
          = Inr (JObj out)"
      "\<forall>k. k \<noteq> ''_id'' \<and> k \<noteq> ''env'' \<longrightarrow> out k = stale_env_doc k"
      "out ''_id'' = None" "out ''env'' = Some (JStr ''prod'')"
    by blast
  from o(2) have "out ''x'' = stale_env_doc ''x''" "out ''app'' = stale_env_doc ''app''"
    "out ''z'' = stale_env_doc ''z''" by simp_all
  then have "out ''x'' = Some (JInt 1)" "out ''app'' = Some (JStr ''a'')" "out ''z'' = None"
    by (simp_all add: stale_env_doc_def sample_doc_def)
  with o(1,3,4) show ?thesis by blast
qed

text \<open>
  Claim C9. If every record of the partition has an \<^verbatim>\<open>_id\<close> key, the list request
  with the correct secret returns a listing: the lookup of \<^verbatim>\<open>_id\<close> never fails.
  If some record has neither \<^verbatim>\<open>app\<close> nor \<^verbatim>\<open>_id\<close>, the request fails with the
  \<^verbatim>\<open>KeyError\<close> of that lookup.
\<close>

theorem get_list_total_with_ids:
  assumes "GET req ''key'' = Some mp"
  shows "((\<forall>x \<in> set (colls w e). x ''_id'' \<noteq> None) \<longrightarrow>
           (\<exists>names. fst (get_list mp self [e] req w) = Inr (JArr names)))
       \<and> ((\<exists>x \<in> set (colls w e). x ''app'' = None \<and> x ''_id'' = None) \<longrightarrow>
           fst (get_list mp self [e] req w) = Inl (KeyError ''_id''))"
proof (intro conjI impI)
  assume "\<forall>x \<in> set (colls w e). x ''_id'' \<noteq> None"
  from comprehension_total [OF this] assms
  show "\<exists>names. fst (get_list mp self [e] req w) = Inr (JArr names)"
    by (simp add: handler_defs Let_def)
next
  assume "\<exists>x \<in> set (colls w e). x ''app'' = None \<and> x ''_id'' = None"
  then obtain x where "x \<in> set (colls w e)" and "x ''_id'' = None" by blast
  from comprehension_fails [OF this] assms
  show "fst (get_list mp self [e] req w) = Inl (KeyError ''_id'')"
    by (simp add: handler_defs Let_def)
qed

theorem get_list_total_with_ids_witness:
  "(\<exists>names. fst (get_list ''s3cret'' Krest [''dev''] (with_key ''s3cret'') sample_world)
       = Inr (JArr names))
   \<and> fst (get_list ''s3cret'' Krest [''dev''] (with_key ''s3cret'') bare_world)
       = Inl (KeyError ''_id'')"
proof -
  have h: "GET (with_key ''s3cret'') ''key'' = Some ''s3cret''" by (rule with_key_ok)
  have ids: "\<forall>x \<in> set (colls sample_world ''dev''). x ''_id'' \<noteq> None"
    by (simp add: sample_defs)
  have bare: "\<exists>x \<in> set (colls bare_world ''dev''). x ''app'' = None \<and> x ''_id'' = None"
    by (simp add: sample_defs)
  from get_list_total_with_ids [OF h, of sample_world "''dev''" Krest] ids
    get_list_total_with_ids [OF h, of bare_world "''dev''" Krest] bare
  show ?thesis by blast
qed

text \<open>
  Claim C10. The dictionary that the lookup returns is not mutated by the detail
  request: \<^verbatim>\<open>_id\<close> is removed from a copy and \<^verbatim>\<open>env\<close> is set in that copy. After
  the request the fetched object is what it was when it was fetched, it still equals
  the stored record, and the stored data is unchanged.
\<close>

theorem get_detail_keeps_fetched_record:
  assumes "GET req ''key'' = Some mp"
    and "collection_find_one (get_collection Krest e) a w = (Some r, w1)"
  shows "heap (snd (get_detail mp Krest [e, a] req w)) r = heap w1 r
       \<and> List.find (matches_app a) (colls w e)
           = Some (heap (snd (get_detail mp Krest [e, a] req w)) r)
       \<and> colls (snd (get_detail mp Krest [e, a] req w)) = colls w"
  using assms
  by (auto simp: handler_defs Let_def split: option.splits if_splits)

theorem get_detail_keeps_fetched_record_witness:
  "heap (snd (get_detail ''s3cret'' Krest [''dev'', ''a''] (with_key ''s3cret'') sample_world)) 0
     = sample_doc
   \<and> heap (snd (get_detail ''s3cret'' Krest [''dev'', ''a''] (with_key ''s3cret'') sample_world)) 0
       ''_id'' = Some (JOid ''5f1'')"
proof -
  have h1: "GET (with_key ''s3cret'') ''key'' = Some ''s3cret''" by (rule with_key_ok)
  have h2: "collection_find_one (get_collection Krest ''dev'') ''a'' sample_world
      = (Some 0, snd (collection_find_one (get_collection Krest ''dev'') ''a'' sample_world))"
    by (simp add: prod_eq_iff collection_find_one_def get_collection_def alloc_def sample_defs)
  have h3: "heap (snd (collection_find_one (get_collection Krest ''dev'') ''a'' sample_world)) 0
      = sample_doc"
    by (simp add: collection_find_one_def get_collection_def alloc_def sample_defs)
  from get_detail_keeps_fetched_record [OF h1 h2] h3
  have "heap (snd (get_detail ''s3cret'' Krest [''dev'', ''a''] (with_key ''s3cret'') sample_world)) 0
      = sample_doc" by simp
  then show ?thesis by (simp add: sample_doc_def)
qed

end
